theory Spec2Isabelle
  imports Main
begin

section \<open>Exceptions\<close>

text \<open>
  The exception classes the two modules raise (\<^verbatim>\<open>core.exceptions\<close>), and \<^verbatim>\<open>AttributeError\<close>,
  which Python raises when a method is looked up on \<^verbatim>\<open>None\<close>. \<open>Exception\<close> stands for any other
  exception, by the name of its class.
\<close>

datatype error =
    NoInternetConnection
  | NoProxiesFound
  | ProxyGatherException
  | ProxyParseException
  | AttributeError
  | Exception string

section \<open>Strings\<close>

text \<open>
  \<^verbatim>\<open>str.split(sep)\<close> with an explicit separator of one character: the fields between the
  separators, empty fields included; the empty string gives one empty field.
\<close>

fun str_split :: "char \<Rightarrow> string \<Rightarrow> string list" where
  "str_split sep [] = [[]]"
| "str_split sep (c # cs) =
     (if c = sep then [] # str_split sep cs
      else (case str_split sep cs of
              [] \<Rightarrow> [[c]]
            | w # ws \<Rightarrow> (c # w) # ws))"

text \<open>
  \<^verbatim>\<open>str.lower()\<close> on the ASCII letters; every other character is left as it is.
\<close>

definition lower_char :: "char \<Rightarrow> char" where
  "lower_char c =
     (let n = (of_char c :: nat)
      in if 65 \<le> n \<and> n \<le> 90 then char_of (n + 32) else c)"

definition lower :: "string \<Rightarrow> string" where
  "lower s = map lower_char s"

text \<open>
  \<^verbatim>\<open>str.splitlines()\<close>: the lines of a text without their line ends. A line ends at
  \<^verbatim>\<open>\r\n\<close> (one boundary), \<^verbatim>\<open>\n\<close>, \<^verbatim>\<open>\r\<close>, and at the other boundaries Python knows among
  the 8-bit characters (\<^verbatim>\<open>\x0b\<close>, \<^verbatim>\<open>\x0c\<close>, \<^verbatim>\<open>\x1c\<close>, \<^verbatim>\<open>\x1d\<close>, \<^verbatim>\<open>\x1e\<close>, \<^verbatim>\<open>\x85\<close>). A text that
  ends with a boundary has no empty last line.
\<close>

definition is_linebreak :: "char \<Rightarrow> bool" where
  "is_linebreak c = ((of_char c :: nat) \<in> {10, 11, 12, 13, 28, 29, 30, 133})"

fun splitlines_from :: "string \<Rightarrow> string \<Rightarrow> string list" where
  "splitlines_from cur [] = (if cur = [] then [] else [cur])"
| "splitlines_from cur [c] = (if is_linebreak c then [cur] else [cur @ [c]])"
| "splitlines_from cur (c # d # cs) =
     (if (of_char c :: nat) = 13 \<and> (of_char d :: nat) = 10 then cur # splitlines_from [] cs
      else if is_linebreak c then cur # splitlines_from [] (d # cs)
      else splitlines_from (cur @ [c]) (d # cs))"

definition splitlines :: "string \<Rightarrow> string list" where
  "splitlines s = splitlines_from [] s"

section \<open>Data model\<close>

type_synonym Protocols = string

datatype Anonymities = Transparent | Anonymous | Elite

text \<open>
  Modelled from the spec: the \<^verbatim>\<open>Proxy\<close> class (\<^verbatim>\<open>ballyregan.models\<close>, imported by both
  modules, not among the sources). The spec gives a proxy a protocol, an address, a port and
  an anonymity level that is unknown until the proxy is probed, and defines equality and
  hashing on the triple (protocol, address, port). The fields hold the text the provider
  passes to the constructor.
\<close>

record Proxy =
  protocol :: Protocols
  ip :: string
  port :: string
  anonymity :: "Anonymities option"

definition proxy_eq :: "Proxy \<Rightarrow> Proxy \<Rightarrow> bool" where
  "proxy_eq p q = (protocol p = protocol q \<and> ip p = ip q \<and> port p = port q)"

text \<open>
  Modelled from the spec: the constructor call \<^verbatim>\<open>Proxy(ip=..., port=..., protocol=...)\<close> of a
  candidate, which the spec calls an unvalidated triple: it stores the three fields and
  leaves the anonymity unknown.
\<close>

definition Proxy_init :: "string \<Rightarrow> string \<Rightarrow> Protocols \<Rightarrow> error + Proxy" where
  "Proxy_init ip0 port0 protocol0 =
     Inr \<lparr>protocol = protocol0, ip = ip0, port = port0, anonymity = None\<rparr>"

section \<open>providers/proxy\_list\_download.py\<close>

text \<open>
  The answer of \<^verbatim>\<open>self._session.get(url, params={'type': protocol})\<close>: the call raises, or
  it returns a response with its \<^verbatim>\<open>ok\<close> flag and its \<^verbatim>\<open>text\<close>.
\<close>

datatype response = Raises | Response bool string

text \<open>
  The \<^verbatim>\<open>try\<close> block of the loop body: the request, and the raise on a response that is not ok.
\<close>

definition try_request :: "(Protocols \<Rightarrow> response) \<Rightarrow> Protocols \<Rightarrow> error + string" where
  "try_request session_get protocol0 =
     (case session_get protocol0 of
        Raises \<Rightarrow> Inl (Exception ''ConnectionError'')
      | Response ok0 text0 \<Rightarrow> if \<not> ok0 then Inl ProxyGatherException else Inr text0)"

text \<open>
  The loop of \<^verbatim>\<open>_get_raw_proxies\<close> over \<^verbatim>\<open>Protocols.values()\<close>, with the list \<^verbatim>\<open>proxies\<close>
  collected so far: \<^verbatim>\<open>except Exception\<close> turns every exception of the \<^verbatim>\<open>try\<close> block into
  \<^verbatim>\<open>ProxyGatherException\<close>, the \<^verbatim>\<open>else\<close> branch appends the lines of the response, each
  prefixed with the protocol and a colon.
\<close>

fun get_raw_proxies_loop ::
  "(Protocols \<Rightarrow> response) \<Rightarrow> Protocols list \<Rightarrow> string list \<Rightarrow> error + string list" where
  "get_raw_proxies_loop session_get [] proxies = Inr proxies"
| "get_raw_proxies_loop session_get (protocol0 # rest) proxies =
     (case try_request session_get protocol0 of
        Inl e \<Rightarrow> Inl ProxyGatherException
      | Inr text0 \<Rightarrow>
          (let proxies_result = splitlines text0;
               proxies_with_protocol = map (\<lambda>proxy. protocol0 @ '':'' @ proxy) proxies_result
           in get_raw_proxies_loop session_get rest (proxies @ proxies_with_protocol)))"

text \<open>
  \<^verbatim>\<open>_get_raw_proxies\<close>. The enumeration \<^verbatim>\<open>Protocols\<close> is not among the sources, so the list
  \<^verbatim>\<open>Protocols.values()\<close> is an argument.
\<close>

definition get_raw_proxies ::
  "(Protocols \<Rightarrow> response) \<Rightarrow> Protocols list \<Rightarrow> error + string list" where
  "get_raw_proxies session_get Protocols_values =
     get_raw_proxies_loop session_get Protocols_values []"

text \<open>
  Modelled from the spec: the values of the enumeration \<^verbatim>\<open>Protocols\<close>, which the spec lists as
  http, https, socks4, socks5.
\<close>

definition Protocols_values :: "Protocols list" where
  "Protocols_values = [''http'', ''https'', ''socks4'', ''socks5'']"

text \<open>
  \<^verbatim>\<open>raw_proxy_to_object\<close>. Unpacking the split into three names raises \<^verbatim>\<open>ValueError\<close> unless
  there are exactly three fields, and only that is caught. The constructor of \<^verbatim>\<open>Proxy\<close> is
  called after the \<^verbatim>\<open>try\<close> statement; it is an argument, and what it raises is not caught.
\<close>

definition raw_proxy_to_object ::
  "(string \<Rightarrow> string \<Rightarrow> Protocols \<Rightarrow> error + 'p) \<Rightarrow> string \<Rightarrow> error + 'p" where
  "raw_proxy_to_object Proxy_new raw_proxy =
     (case str_split CHR '':'' raw_proxy of
        [protocol0, ip0, port0] \<Rightarrow> Proxy_new ip0 port0 (lower protocol0)
      | _ \<Rightarrow> Inl ProxyParseException)"

section \<open>fetcher.py\<close>

subsection \<open>Collaborators and effects\<close>

text \<open>
  Modelled from the spec: a provider (\<^verbatim>\<open>IProxyProvider\<close>, not among the sources) offers
  \<^verbatim>\<open>gather()\<close>, which returns candidates or fails with a transport error. A provider is given
  by what its \<^verbatim>\<open>gather()\<close> does in the run under consideration.
\<close>

datatype IProxyProvider = Provider (gather: "error + Proxy list")

text \<open>
  Modelled from the spec: the filterer (\<^verbatim>\<open>ProxyFilterer.filter\<close>) is a pure function of the
  candidates and the two allow-lists, and the validator (\<^verbatim>\<open>ProxyValidator.filter_valid_proxies\<close>)
  takes the candidates and the limit and reports failure only through an empty result.
  Neither class is among the sources; an instance is given by the function it computes.
\<close>

type_synonym ProxyFilterer = "Proxy list \<Rightarrow> Protocols list \<Rightarrow> Anonymities list \<Rightarrow> Proxy list"

type_synonym ProxyValidator = "Proxy list \<Rightarrow> int \<Rightarrow> Proxy list"

type_synonym AbstractEventLoop = nat

text \<open>
  What the fetcher does to the world outside its own fields, in the order of the calls.
  The providers run in a thread pool that is left only when every call has ended; their
  calls are recorded in the order of the providers.
\<close>

datatype event =
    InitLogger bool
  | HasInternetConnection
  | GetEventLoop
  | ProviderGather nat
  | FiltererFilter
  | ValidatorFilterValidProxies int

type_synonym trace = "event list"

text \<open>
  The functions of other modules that construction calls: the answer of
  \<^verbatim>\<open>has_internet_connection()\<close>, the loop \<^verbatim>\<open>get_event_loop()\<close> returns, and the instances that
  \<^verbatim>\<open>ProxyFilterer()\<close> and \<^verbatim>\<open>ProxyValidator(loop=...)\<close> build.
\<close>

record env =
  has_internet_connection :: bool
  get_event_loop :: AbstractEventLoop
  ProxyFilterer_new :: ProxyFilterer
  ProxyValidator_new :: "AbstractEventLoop \<Rightarrow> ProxyValidator"

text \<open>
  The fields of the dataclass, without the leading underscores. \<^verbatim>\<open>None\<close> is \<open>None\<close>.
\<close>

record ProxyFetcher =
  proxy_providers :: "IProxyProvider list"
  proxy_validator :: "ProxyValidator option"
  proxy_filterer :: "ProxyFilterer option"
  loop :: "AbstractEventLoop option"
  debug :: bool

subsection \<open>Attribute writes and construction\<close>

text \<open>
  An assignment \<^verbatim>\<open>self.name = value\<close> to one of the five fields, with the value assigned.
\<close>

datatype attr_write =
    Set_proxy_providers "IProxyProvider list"
  | Set_proxy_validator "ProxyValidator option"
  | Set_proxy_filterer "ProxyFilterer option"
  | Set_loop "AbstractEventLoop option"
  | Set_debug bool

text \<open>
  \<^verbatim>\<open>__setattr__\<close>: a write to \<^verbatim>\<open>debug\<close> calls \<^verbatim>\<open>init_logger\<close> with the value first; every write
  then stores the value (\<^verbatim>\<open>super().__setattr__\<close>).
\<close>

fun setattr :: "ProxyFetcher \<Rightarrow> attr_write \<Rightarrow> trace \<Rightarrow> ProxyFetcher \<times> trace" where
  "setattr self (Set_debug v) t = (self\<lparr>debug := v\<rparr>, t @ [InitLogger v])"
| "setattr self (Set_proxy_providers v) t = (self\<lparr>proxy_providers := v\<rparr>, t)"
| "setattr self (Set_proxy_validator v) t = (self\<lparr>proxy_validator := v\<rparr>, t)"
| "setattr self (Set_proxy_filterer v) t = (self\<lparr>proxy_filterer := v\<rparr>, t)"
| "setattr self (Set_loop v) t = (self\<lparr>loop := v\<rparr>, t)"

text \<open>
  \<^verbatim>\<open>__new_validator\<close>: the validator on the fetcher's loop; without a loop, the loop of
  \<^verbatim>\<open>get_event_loop()\<close> is stored in \<^verbatim>\<open>self.loop\<close> first.
\<close>

definition new_validator ::
  "env \<Rightarrow> ProxyFetcher \<Rightarrow> trace \<Rightarrow> ProxyValidator \<times> ProxyFetcher \<times> trace" where
  "new_validator e self t =
     (case loop self of
        Some l \<Rightarrow> (ProxyValidator_new e l, self, t)
      | None \<Rightarrow>
          (let l = get_event_loop e;
               (self1, t1) = setattr self (Set_loop (Some l)) (t @ [GetEventLoop])
           in (ProxyValidator_new e l, self1, t1)))"

text \<open>
  \<^verbatim>\<open>__post_init__\<close>: the connectivity check, then the default filterer and validator where
  none was given.
\<close>

definition post_init :: "env \<Rightarrow> ProxyFetcher \<Rightarrow> trace \<Rightarrow> (error + ProxyFetcher) \<times> trace" where
  "post_init e self t =
     (let t0 = t @ [HasInternetConnection]
      in if \<not> has_internet_connection e then (Inl NoInternetConnection, t0)
         else
           (let (self1, t1) =
                  (case proxy_filterer self of
                     None \<Rightarrow> setattr self (Set_proxy_filterer (Some (ProxyFilterer_new e))) t0
                   | Some f \<Rightarrow> (self, t0));
                (self2, t2) =
                  (case proxy_validator self1 of
                     None \<Rightarrow>
                       (let (v, self', t') = new_validator e self1 t1
                        in setattr self' (Set_proxy_validator (Some v)) t')
                   | Some v \<Rightarrow> (self1, t1))
            in (Inr self2, t2)))"

text \<open>
  The \<^verbatim>\<open>__init__\<close> that \<^verbatim>\<open>@dataclass\<close> generates: it assigns the five fields in the order of
  their declaration, each through \<^verbatim>\<open>__setattr__\<close>, and calls \<^verbatim>\<open>__post_init__\<close>. The object
  before the first assignment has no field set; its record is overwritten field by field.
\<close>

definition unset :: ProxyFetcher where
  "unset = \<lparr>proxy_providers = [], proxy_validator = None, proxy_filterer = None,
            loop = None, debug = False\<rparr>"

definition ProxyFetcher_init ::
  "env \<Rightarrow> IProxyProvider list \<Rightarrow> ProxyValidator option \<Rightarrow> ProxyFilterer option \<Rightarrow>
   AbstractEventLoop option \<Rightarrow> bool \<Rightarrow> trace \<Rightarrow> (error + ProxyFetcher) \<times> trace" where
  "ProxyFetcher_init e providers validator filterer loop0 debug0 t =
     (let (s1, t1) = setattr unset (Set_proxy_providers providers) t;
          (s2, t2) = setattr s1 (Set_proxy_validator validator) t1;
          (s3, t3) = setattr s2 (Set_proxy_filterer filterer) t2;
          (s4, t4) = setattr s3 (Set_loop loop0) t3;
          (s5, t5) = setattr s4 (Set_debug debug0) t4
      in post_init e s5 t5)"

subsection \<open>The pipeline\<close>

text \<open>
  Reading the results of \<^verbatim>\<open>executor.map\<close> through \<^verbatim>\<open>chain.from_iterable\<close>: the results come
  in the order of the providers, and reading the result of a call that raised raises its
  exception again.
\<close>

fun chain_from_iterable :: "(error + 'a list) list \<Rightarrow> error + 'a list" where
  "chain_from_iterable [] = Inr []"
| "chain_from_iterable (Inl e # rs) = Inl e"
| "chain_from_iterable (Inr xs # rs) =
     (case chain_from_iterable rs of
        Inl e \<Rightarrow> Inl e
      | Inr ys \<Rightarrow> Inr (xs @ ys))"

text \<open>
  \<^verbatim>\<open>list(set(...))\<close>: a set keeps the first of the elements that are equal to each other.
  Python does not fix the order in which a set is read; the model reads it in the order of
  the first occurrences.
\<close>

fun list_set :: "Proxy list \<Rightarrow> Proxy list" where
  "list_set [] = []"
| "list_set (p # ps) = p # list_set (filter (\<lambda>q. \<not> proxy_eq q p) ps)"

definition get_all_proxies_from_providers ::
  "ProxyFetcher \<Rightarrow> trace \<Rightarrow> (error + Proxy list) \<times> trace" where
  "get_all_proxies_from_providers self t =
     (let proxies_generator = map gather (proxy_providers self);
          t1 = t @ map ProviderGather [0..<length (proxy_providers self)]
      in (case chain_from_iterable proxies_generator of
            Inl e \<Rightarrow> (Inl e, t1)
          | Inr proxies \<Rightarrow> (Inr (list_set proxies), t1)))"

text \<open>
  \<^verbatim>\<open>_gather\<close>, named \<open>fetcher_gather\<close> here (\<open>gather\<close> is the provider's method). A method
  call on a field that is \<^verbatim>\<open>None\<close> raises \<^verbatim>\<open>AttributeError\<close>.
\<close>

definition fetcher_gather ::
  "ProxyFetcher \<Rightarrow> Protocols list \<Rightarrow> Anonymities list \<Rightarrow> int \<Rightarrow> trace \<Rightarrow>
   (error + Proxy list) \<times> trace" where
  "fetcher_gather self protocols anonymities limit t =
     (case get_all_proxies_from_providers self t of
        (Inl e, t1) \<Rightarrow> (Inl e, t1)
      | (Inr proxies, t1) \<Rightarrow>
          (case proxy_filterer self of
             None \<Rightarrow> (Inl AttributeError, t1)
           | Some filterer \<Rightarrow>
               (let filtered_proxies = filterer proxies protocols anonymities;
                    t2 = t1 @ [FiltererFilter]
                in (case proxy_validator self of
                      None \<Rightarrow> (Inl AttributeError, t2)
                    | Some validator \<Rightarrow>
                        (let valid_proxies = validator filtered_proxies limit;
                             t3 = t2 @ [ValidatorFilterValidProxies limit]
                         in if valid_proxies = [] then (Inl NoProxiesFound, t3)
                            else (Inr valid_proxies, t3))))))"

definition get_one ::
  "ProxyFetcher \<Rightarrow> Protocols list \<Rightarrow> Anonymities list \<Rightarrow> trace \<Rightarrow>
   (error + Proxy list) \<times> trace" where
  "get_one self protocols anonymities t = fetcher_gather self protocols anonymities 1 t"

definition get ::
  "ProxyFetcher \<Rightarrow> Protocols list \<Rightarrow> Anonymities list \<Rightarrow> int \<Rightarrow> trace \<Rightarrow>
   (error + Proxy list) \<times> trace" where
  "get self protocols anonymities limit t =
     (let proxies = fetcher_gather self protocols anonymities limit t in proxies)"

section \<open>The statements of the specification\<close>

text \<open>
  The aggregation the specification asks for: a provider whose \<^verbatim>\<open>gather()\<close> fails contributes
  no candidate, and the candidates of the other providers are merged without duplicates.
\<close>

definition contribution :: "IProxyProvider \<Rightarrow> Proxy list" where
  "contribution p = (case gather p of Inl e \<Rightarrow> [] | Inr ps \<Rightarrow> ps)"

definition merged_candidates :: "IProxyProvider list \<Rightarrow> Proxy list" where
  "merged_candidates providers = list_set (concat (map contribution providers))"

text \<open>
  What the specification lets a caller of \<^verbatim>\<open>get\<close> or \<^verbatim>\<open>get_one\<close> see, on a fetcher that exists:
  proxies, or the error of an empty validation.
\<close>

definition caller_sees_per_spec :: "error + Proxy list \<Rightarrow> bool" where
  "caller_sees_per_spec r = (case r of Inl e \<Rightarrow> e = NoProxiesFound | Inr ps \<Rightarrow> True)"

text \<open>
  A raw string is malformed, in the words of the specification, when it does not have three
  fields between colons or when its port is not a number.
\<close>

definition numeric :: "string \<Rightarrow> bool" where
  "numeric s = (s \<noteq> [] \<and> list_all (\<lambda>c. 48 \<le> (of_char c :: nat) \<and> (of_char c :: nat) \<le> 57) s)"

definition malformed :: "string \<Rightarrow> bool" where
  "malformed raw_proxy =
     (case str_split CHR '':'' raw_proxy of
        [protocol0, ip0, port0] \<Rightarrow> \<not> numeric port0
      | _ \<Rightarrow> True)"

text \<open>
  What a caller of \<^verbatim>\<open>get\<close> or \<^verbatim>\<open>get_one\<close> sees on the code: a list that is not empty, the
  error of an empty validation, or the exception that the \<^verbatim>\<open>gather()\<close> of one of the providers
  raised.
\<close>

definition caller_sees :: "IProxyProvider list \<Rightarrow> error + Proxy list \<Rightarrow> bool" where
  "caller_sees providers r =
     (case r of
        Inl e \<Rightarrow> e = NoProxiesFound \<or> Inl e \<in> set (map gather providers)
      | Inr ps \<Rightarrow> ps \<noteq> [])"

section \<open>Example values\<close>

definition proxy_a :: Proxy where
  "proxy_a = \<lparr>protocol = ''http'', ip = ''1.2.3.4'', port = ''8080'', anonymity = None\<rparr>"

definition proxy_a_elite :: Proxy where
  "proxy_a_elite = \<lparr>protocol = ''http'', ip = ''1.2.3.4'', port = ''8080'', anonymity = Some Elite\<rparr>"

definition proxy_b :: Proxy where
  "proxy_b = \<lparr>protocol = ''socks5'', ip = ''5.6.7.8'', port = ''1080'', anonymity = None\<rparr>"

text \<open>A filterer that lets every candidate pass, and validators whose probes all succeed or all fail.\<close>

definition pass_filterer :: ProxyFilterer where
  "pass_filterer proxies protocols anonymities = proxies"

definition all_alive_validator :: ProxyValidator where
  "all_alive_validator proxies limit = (if limit = 0 then proxies else take (nat limit) proxies)"

definition all_dead_validator :: ProxyValidator where
  "all_dead_validator proxies limit = []"

definition env_online :: env where
  "env_online = \<lparr>has_internet_connection = True, get_event_loop = 0,
                 ProxyFilterer_new = pass_filterer,
                 ProxyValidator_new = (\<lambda>l. all_alive_validator)\<rparr>"

definition env_offline :: env where
  "env_offline = env_online\<lparr>has_internet_connection := False\<rparr>"

definition providers_overlapping :: "IProxyProvider list" where
  "providers_overlapping = [Provider (Inr [proxy_a, proxy_b]), Provider (Inr [proxy_a_elite])]"

definition providers_one_failing :: "IProxyProvider list" where
  "providers_one_failing = [Provider (Inr [proxy_a]), Provider (Inl ProxyGatherException)]"

definition fetcher_of :: "IProxyProvider list \<Rightarrow> ProxyValidator \<Rightarrow> ProxyFetcher" where
  "fetcher_of providers validator =
     \<lparr>proxy_providers = providers, proxy_validator = Some validator,
      proxy_filterer = Some pass_filterer, loop = Some 0, debug = False\<rparr>"

text \<open>Answers of the proxy-list.download session: every request succeeds, or the third is refused.\<close>

definition session_all_ok :: "Protocols \<Rightarrow> response" where
  "session_all_ok protocol0 = Response True ''1.1.1.1:80''"

definition session_socks4_refused :: "Protocols \<Rightarrow> response" where
  "session_socks4_refused protocol0 =
     (if protocol0 = ''socks4'' then Response False [] else Response True ''1.1.1.1:80'')"

section \<open>Lemmas on the building blocks\<close>

lemma chain_all_returned:
  "list_all (\<lambda>r. \<not> isl r) rs \<Longrightarrow> chain_from_iterable rs = Inr (concat (map projr rs))"
  by (induction rs rule: chain_from_iterable.induct) auto

lemma chain_first_raised:
  "list_all (\<lambda>r. \<not> isl r) rs \<Longrightarrow> chain_from_iterable (rs @ Inl e # rs') = Inl e"
  by (induction rs rule: chain_from_iterable.induct) auto

lemma chain_Inl_member:
  "chain_from_iterable rs = Inl e \<Longrightarrow> Inl e \<in> set rs"
  by (induction rs rule: chain_from_iterable.induct) (auto split: sum.splits)

lemma set_list_set: "set (list_set ps) \<subseteq> set ps"
  by (induction ps rule: list_set.induct) auto

lemma list_set_not_eq:
  assumes "q \<in> set (list_set (filter (\<lambda>q. \<not> proxy_eq q p) ps))"
  shows "\<not> proxy_eq q p"
proof -
  from assms have "q \<in> set (filter (\<lambda>q. \<not> proxy_eq q p) ps)"
    using set_list_set by blast
  then show ?thesis by simp
qed

lemma list_set_keys_distinct:
  "distinct (map (\<lambda>p. (protocol p, ip p, port p)) (list_set ps))"
proof (induction ps rule: list_set.induct)
  case 1
  show ?case by simp
next
  case (2 p ps)
  have "(protocol p, ip p, port p) \<notin>
      (\<lambda>p. (protocol p, ip p, port p)) ` set (list_set (filter (\<lambda>q. \<not> proxy_eq q p) ps))"
  proof
    assume "(protocol p, ip p, port p) \<in>
      (\<lambda>p. (protocol p, ip p, port p)) ` set (list_set (filter (\<lambda>q. \<not> proxy_eq q p) ps))"
    then obtain q where q: "q \<in> set (list_set (filter (\<lambda>q. \<not> proxy_eq q p) ps))"
      and k: "(protocol p, ip p, port p) = (protocol q, ip q, port q)" by blast
    from k have "proxy_eq q p" by (simp add: proxy_eq_def)
    with list_set_not_eq [OF q] show False by simp
  qed
  with 2 show ?case by simp
qed

lemma list_set_no_equal_entries:
  assumes "i < j" "j < length (list_set ps)"
  shows "\<not> proxy_eq (list_set ps ! i) (list_set ps ! j)"
proof
  assume e: "proxy_eq (list_set ps ! i) (list_set ps ! j)"
  let ?k = "\<lambda>p. (protocol p, ip p, port p)"
  let ?ks = "map ?k (list_set ps)"
  have d: "distinct ?ks" by (rule list_set_keys_distinct)
  have li: "i < length ?ks" and lj: "j < length ?ks" using assms by simp_all
  have "?ks ! i = ?ks ! j" using e assms by (simp add: proxy_eq_def)
  then have "i = j" using d li lj by (simp only: nth_eq_iff_index_eq)
  with assms show False by simp
qed

lemma aggregate_result:
  "fst (get_all_proxies_from_providers self t) =
     (case chain_from_iterable (map gather (proxy_providers self)) of
        Inl e \<Rightarrow> Inl e | Inr proxies \<Rightarrow> Inr (list_set proxies))"
  by (simp add: get_all_proxies_from_providers_def Let_def split: sum.splits)

lemma concat_contributions:
  "list_all (\<lambda>p. \<not> isl (gather p)) ps \<Longrightarrow>
   concat (map projr (map gather ps)) = concat (map contribution ps)"
  by (induction ps) (auto simp: contribution_def split: sum.splits)

lemma post_init_constructed:
  assumes "fst (post_init e self t) = Inr self'"
  shows "has_internet_connection e \<and> proxy_providers self' = proxy_providers self \<and>
         proxy_filterer self' \<noteq> None \<and> proxy_validator self' \<noteq> None"
  using assms
  by (auto simp: post_init_def new_validator_def Let_def split: if_splits option.splits prod.splits)

lemma init_constructed:
  assumes "fst (ProxyFetcher_init e providers validator filterer loop0 debug0 t) = Inr self"
  shows "has_internet_connection e \<and> proxy_providers self = providers \<and>
         proxy_filterer self \<noteq> None \<and> proxy_validator self \<noteq> None"
proof -
  let ?s5 = "\<lparr>proxy_providers = providers, proxy_validator = validator,
      proxy_filterer = filterer, loop = loop0, debug = debug0\<rparr>"
  have "ProxyFetcher_init e providers validator filterer loop0 debug0 t =
      post_init e ?s5 (t @ [InitLogger debug0])"
    by (simp add: ProxyFetcher_init_def unset_def)
  with assms have "fst (post_init e ?s5 (t @ [InitLogger debug0])) = Inr self" by simp
  from post_init_constructed [OF this] show ?thesis by simp
qed

lemma fetcher_gather_result:
  assumes "proxy_filterer self = Some filterer" and "proxy_validator self = Some validator"
  shows "fst (fetcher_gather self protocols anonymities limit t) =
     (case fst (get_all_proxies_from_providers self t) of
        Inl e \<Rightarrow> Inl e
      | Inr proxies \<Rightarrow>
          if validator (filterer proxies protocols anonymities) limit = [] then Inl NoProxiesFound
          else Inr (validator (filterer proxies protocols anonymities) limit))"
  using assms
  by (simp add: fetcher_gather_def Let_def split: prod.splits sum.splits)

lemma fetcher_gather_never_empty:
  "fst (fetcher_gather self protocols anonymities limit t) \<noteq> Inr []"
  by (simp add: fetcher_gather_def Let_def split: prod.splits sum.splits option.splits)

lemma fetcher_gather_caller_sees:
  assumes "proxy_filterer self \<noteq> None" and "proxy_validator self \<noteq> None"
  shows "caller_sees (proxy_providers self) (fst (fetcher_gather self protocols anonymities limit t))"
proof -
  obtain filterer validator where fv: "proxy_filterer self = Some filterer"
    "proxy_validator self = Some validator" using assms by auto
  show ?thesis
  proof (cases "chain_from_iterable (map gather (proxy_providers self))")
    case (Inl e)
    then have "Inl e \<in> set (map gather (proxy_providers self))" by (rule chain_Inl_member)
    moreover have "fst (fetcher_gather self protocols anonymities limit t) = Inl e"
      using Inl by (simp add: fetcher_gather_result [OF fv] aggregate_result)
    ultimately show ?thesis by (simp add: caller_sees_def)
  next
    case (Inr proxies)
    then show ?thesis
      by (simp add: fetcher_gather_result [OF fv] aggregate_result caller_sees_def)
  qed
qed

lemma init_example:
  "fst (ProxyFetcher_init env_online providers (Some validator) (Some pass_filterer) (Some 0) False []) =
     Inr (fetcher_of providers validator)"
  by (simp add: ProxyFetcher_init_def unset_def post_init_def env_online_def fetcher_of_def Let_def)

lemma aggregate_example:
  "fst (get_all_proxies_from_providers (fetcher_of providers_overlapping validator) t) =
     Inr [proxy_a, proxy_b]"
  by (simp add: get_all_proxies_from_providers_def fetcher_of_def providers_overlapping_def
      proxy_eq_def proxy_a_def proxy_b_def proxy_a_elite_def)

lemma try_request_cases:
  "try_request session_get p =
     (case session_get p of
        Raises \<Rightarrow> Inl (Exception ''ConnectionError'')
      | Response ok0 text0 \<Rightarrow> if ok0 then Inr text0 else Inl ProxyGatherException)"
  by (simp add: try_request_def split: response.splits)

lemma loop_all_ok:
  "\<forall>p \<in> set ps. session_get p = Response True (texts p) \<Longrightarrow>
   get_raw_proxies_loop session_get ps acc =
     Inr (acc @ concat (map (\<lambda>p. map (\<lambda>proxy. p @ '':'' @ proxy) (splitlines (texts p))) ps))"
  by (induction ps arbitrary: acc) (simp_all add: try_request_cases)

lemma loop_one_failed:
  "p \<in> set ps \<Longrightarrow> session_get p = Raises \<or> (\<exists>body. session_get p = Response False body) \<Longrightarrow>
   get_raw_proxies_loop session_get ps acc = Inl ProxyGatherException"
proof (induction ps arbitrary: acc)
  case Nil
  then show ?case by simp
next
  case (Cons q ps)
  show ?case
  proof (cases "try_request session_get q")
    case (Inl e)
    then show ?thesis by simp
  next
    case (Inr body)
    then have "q \<noteq> p" using Cons.prems(2) by (auto simp: try_request_cases)
    then have "p \<in> set ps" using Cons.prems(1) by simp
    from Cons.IH [OF this Cons.prems(2)] show ?thesis using Inr by simp
  qed
qed

lemma loop_returned_all_ok:
  "get_raw_proxies_loop session_get ps acc = Inr xs \<Longrightarrow>
   \<forall>p \<in> set ps. \<exists>body. session_get p = Response True body"
proof (induction ps arbitrary: acc)
  case Nil
  then show ?case by simp
next
  case (Cons q ps)
  then show ?case
    by (auto simp: try_request_cases split: sum.splits response.splits if_splits)
qed

lemma splitlines_example: "splitlines ''1.1.1.1:80'' = [''1.1.1.1:80'']"
  by (simp add: splitlines_def is_linebreak_def)

lemma str_split_not_Nil: "str_split c s \<noteq> []"
  by (induction s) (auto split: list.splits)

lemma length_str_split: "length (str_split c s) = Suc (count_list s c)"
  by (induction s) (auto split: list.splits simp: str_split_not_Nil)

lemma str_split_single:
  "str_split c s = [w] \<Longrightarrow> s = w \<and> c \<notin> set w"
proof (induction s arbitrary: w)
  case Nil
  then show ?case by simp
next
  case (Cons x xs)
  show ?case
  proof (cases "x = c")
    case True
    with Cons.prems show ?thesis by (simp add: str_split_not_Nil)
  next
    case False
    with Cons.prems obtain w' where "str_split c xs = [w']" "w = x # w'"
      by (auto split: list.splits simp: str_split_not_Nil)
    with Cons.IH False show ?thesis by simp
  qed
qed

lemma str_split_more:
  "str_split c s = w # v # ws \<Longrightarrow>
   \<exists>s'. s = w @ c # s' \<and> c \<notin> set w \<and> str_split c s' = v # ws"
proof (induction s arbitrary: w)
  case Nil
  then show ?case by simp
next
  case (Cons x xs)
  show ?case
  proof (cases "x = c")
    case True
    with Cons.prems show ?thesis by simp
  next
    case False
    with Cons.prems obtain w' where w': "str_split c xs = w' # v # ws" "w = x # w'"
      by (auto split: list.splits simp: str_split_not_Nil)
    from Cons.IH [OF w'(1)] obtain s' where "xs = w' @ c # s'" "c \<notin> set w'"
      "str_split c s' = v # ws" by blast
    with w'(2) False show ?thesis by simp
  qed
qed

lemma str_split_three:
  assumes "str_split c s = [a, b, d]"
  shows "s = a @ [c] @ b @ [c] @ d \<and> c \<notin> set a \<and> c \<notin> set b \<and> c \<notin> set d"
proof -
  from str_split_more [OF assms] obtain s1 where s1: "s = a @ c # s1" "c \<notin> set a"
    "str_split c s1 = [b, d]" by blast
  from str_split_more [OF s1(3)] obtain s2 where s2: "s1 = b @ c # s2" "c \<notin> set b"
    "str_split c s2 = [d]" by blast
  from str_split_single [OF s2(3)] have "s2 = d" "c \<notin> set d" by simp_all
  with s1 s2 show ?thesis by simp
qed

lemma length_three: "length xs = 3 \<Longrightarrow> \<exists>a b d. xs = [a, b, d]"
  by (cases xs; cases "tl xs"; cases "tl (tl xs)") auto

lemma raw_proxy_to_object_fields:
  "str_split CHR '':'' raw = [a, b, d] \<Longrightarrow> raw_proxy_to_object Proxy_new raw = Proxy_new b d (lower a)"
  by (simp add: raw_proxy_to_object_def)

lemma raw_proxy_to_object_wrong_count:
  "length (str_split CHR '':'' raw) \<noteq> 3 \<Longrightarrow> raw_proxy_to_object Proxy_new raw = Inl ProxyParseException"
  by (auto simp: raw_proxy_to_object_def split: list.splits)

section \<open>The claims\<close>

text \<open>
  C8. For all protocols and anonymities, \<^verbatim>\<open>get_one\<close> gives what \<^verbatim>\<open>get\<close> gives with limit 1:
  the same value or the same error, and the same calls to the outside.
\<close>

theorem get_one_is_get_with_limit_one:
  "get_one self protocols anonymities t = get self protocols anonymities 1 t"
  by (simp add: get_one_def get_def)

text \<open>
  C1, as the code has it. When the \<^verbatim>\<open>gather()\<close> of every provider returns, the aggregation
  step returns the merged candidates without duplicates. When one raises, the step raises
  the exception of the first provider, in the order of the providers, whose \<^verbatim>\<open>gather()\<close>
  raised, and returns no candidate of any other provider.
\<close>

theorem aggregate_raises_with_first_failing_provider:
  "(list_all (\<lambda>p. \<not> isl (gather p)) (proxy_providers self) \<longrightarrow>
      fst (get_all_proxies_from_providers self t) = Inr (merged_candidates (proxy_providers self))) \<and>
   (proxy_providers self = before @ p # after \<and> list_all (\<lambda>q. \<not> isl (gather q)) before \<and>
    gather p = Inl e \<longrightarrow>
      fst (get_all_proxies_from_providers self t) = Inl e)"
proof (intro conjI impI)
  assume a: "list_all (\<lambda>p. \<not> isl (gather p)) (proxy_providers self)"
  then have "list_all (\<lambda>r. \<not> isl r) (map gather (proxy_providers self))"
    by (simp add: list_all_iff)
  then have "chain_from_iterable (map gather (proxy_providers self)) =
      Inr (concat (map projr (map gather (proxy_providers self))))"
    by (rule chain_all_returned)
  then have "chain_from_iterable (map gather (proxy_providers self)) =
      Inr (concat (map contribution (proxy_providers self)))"
    by (simp only: concat_contributions [OF a])
  then show "fst (get_all_proxies_from_providers self t) = Inr (merged_candidates (proxy_providers self))"
    by (simp add: aggregate_result merged_candidates_def)
next
  assume a: "proxy_providers self = before @ p # after \<and> list_all (\<lambda>q. \<not> isl (gather q)) before \<and>
    gather p = Inl e"
  then have "list_all (\<lambda>r. \<not> isl r) (map gather before)"
    by (simp add: list_all_iff)
  then have "chain_from_iterable (map gather before @ Inl e # map gather after) = Inl e"
    by (rule chain_first_raised)
  then show "fst (get_all_proxies_from_providers self t) = Inl e"
    using a by (simp add: aggregate_result)
qed

theorem aggregate_raises_witness:
  "fst (get_all_proxies_from_providers (fetcher_of providers_overlapping all_alive_validator) []) =
     Inr [proxy_a, proxy_b] \<and>
   fst (get_all_proxies_from_providers (fetcher_of providers_one_failing all_alive_validator) []) =
     Inl ProxyGatherException"
  using aggregate_raises_with_first_failing_provider
      [of "fetcher_of providers_overlapping all_alive_validator" "[]" "[]"
          "Provider (Inl ProxyGatherException)" "[]" ProxyGatherException]
    aggregate_raises_with_first_failing_provider
      [of "fetcher_of providers_one_failing all_alive_validator" "[]" "[Provider (Inr [proxy_a])]"
          "Provider (Inl ProxyGatherException)" "[]" ProxyGatherException]
  by (simp add: fetcher_of_def providers_overlapping_def providers_one_failing_def
      merged_candidates_def contribution_def proxy_eq_def proxy_a_def proxy_b_def proxy_a_elite_def)

text \<open>
  C1 as stated fails: with a first provider that returns one candidate and a second whose
  \<^verbatim>\<open>gather()\<close> raises, the step raises, where the claim has it return the candidate of the
  first.
\<close>

theorem aggregate_not_resilient:
  "fst (get_all_proxies_from_providers (fetcher_of providers_one_failing all_alive_validator) []) =
     Inl ProxyGatherException \<and>
   fst (get_all_proxies_from_providers (fetcher_of providers_one_failing all_alive_validator) []) \<noteq>
     Inr (merged_candidates providers_one_failing) \<and>
   merged_candidates providers_one_failing = [proxy_a]"
  by (simp add: get_all_proxies_from_providers_def fetcher_of_def providers_one_failing_def
      merged_candidates_def contribution_def)

text \<open>
  C6. Whatever the providers return, the list that the aggregation step returns has no two
  entries that are equal as proxies, that is, with the same protocol, address and port.
\<close>

theorem aggregate_no_duplicates:
  assumes "fst (get_all_proxies_from_providers self t) = Inr ps" and "i < j" and "j < length ps"
  shows "\<not> proxy_eq (ps ! i) (ps ! j)"
proof -
  obtain xs where "ps = list_set xs"
    using assms(1) by (auto simp: aggregate_result split: sum.splits)
  then show ?thesis using assms(2,3) list_set_no_equal_entries by blast
qed

theorem aggregate_no_duplicates_witness:
  "fst (get_all_proxies_from_providers (fetcher_of providers_overlapping all_alive_validator) []) =
     Inr [proxy_a, proxy_b] \<and> (0::nat) < 1 \<and> (1::nat) < length [proxy_a, proxy_b] \<and>
   \<not> proxy_eq ([proxy_a, proxy_b] ! 0) ([proxy_a, proxy_b] ! 1)"
proof -
  have h: "fst (get_all_proxies_from_providers (fetcher_of providers_overlapping all_alive_validator) []) =
     Inr [proxy_a, proxy_b]"
    by (simp add: get_all_proxies_from_providers_def fetcher_of_def providers_overlapping_def
        proxy_eq_def proxy_a_def proxy_b_def proxy_a_elite_def)
  have i: "(0::nat) < 1" and j: "(1::nat) < length [proxy_a, proxy_b]" by simp_all
  show ?thesis using h i j aggregate_no_duplicates [OF h i j] by simp
qed

text \<open>
  C2, as the code has it. On a fetcher that construction returned, a caller of \<^verbatim>\<open>get\<close> or
  \<^verbatim>\<open>get_one\<close> sees a list of proxies that is not empty, or \<^verbatim>\<open>NoProxiesFound\<close>, or the exception
  that the \<^verbatim>\<open>gather()\<close> of one of the providers raised, which reaches the caller as it is.
\<close>

theorem caller_sees_list_or_not_found_or_provider_error:
  assumes "fst (ProxyFetcher_init e providers validator filterer loop0 debug0 t0) = Inr self"
  shows "caller_sees providers (fst (get self protocols anonymities limit t)) \<and>
         caller_sees providers (fst (get_one self protocols anonymities t))"
proof -
  from init_constructed [OF assms] have p: "proxy_providers self = providers"
    and f: "proxy_filterer self \<noteq> None" and v: "proxy_validator self \<noteq> None" by simp_all
  show ?thesis
    using fetcher_gather_caller_sees [OF f v] by (simp add: get_def get_one_def p)
qed

theorem caller_sees_witness:
  "fst (ProxyFetcher_init env_online providers_overlapping (Some all_alive_validator)
         (Some pass_filterer) (Some 0) False []) =
     Inr (fetcher_of providers_overlapping all_alive_validator) \<and>
   caller_sees providers_overlapping
     (fst (get (fetcher_of providers_overlapping all_alive_validator) [] [] 0 [])) \<and>
   caller_sees providers_overlapping
     (fst (get_one (fetcher_of providers_overlapping all_alive_validator) [] [] []))"
proof -
  have h: "fst (ProxyFetcher_init env_online providers_overlapping (Some all_alive_validator)
         (Some pass_filterer) (Some 0) False []) =
     Inr (fetcher_of providers_overlapping all_alive_validator)" by (rule init_example)
  show ?thesis
    using h caller_sees_list_or_not_found_or_provider_error [OF h, of "[]" "[]" 0 "[]"] by simp
qed

text \<open>
  C2 as stated fails: on a fetcher with a provider whose \<^verbatim>\<open>gather()\<close> raises
  \<^verbatim>\<open>ProxyGatherException\<close>, both calls raise that exception, which is neither of the two errors
  of the claim.
\<close>

theorem provider_error_reaches_caller:
  "fst (ProxyFetcher_init env_online providers_one_failing (Some all_alive_validator)
         (Some pass_filterer) (Some 0) False []) =
     Inr (fetcher_of providers_one_failing all_alive_validator) \<and>
   fst (get (fetcher_of providers_one_failing all_alive_validator) [] [] 0 []) =
     Inl ProxyGatherException \<and>
   fst (get_one (fetcher_of providers_one_failing all_alive_validator) [] [] []) =
     Inl ProxyGatherException \<and>
   \<not> caller_sees_per_spec (fst (get (fetcher_of providers_one_failing all_alive_validator) [] [] 0 []))"
  by (simp add: init_example get_def get_one_def fetcher_gather_def
      get_all_proxies_from_providers_def fetcher_of_def providers_one_failing_def
      caller_sees_per_spec_def)

text \<open>
  C4. When the list that validation produced is empty, \<^verbatim>\<open>get\<close> and \<^verbatim>\<open>get_one\<close> raise
  \<^verbatim>\<open>NoProxiesFound\<close>; neither ever returns an empty list.
\<close>

theorem empty_validation_raises_NoProxiesFound:
  "(fst (get_all_proxies_from_providers self t) = Inr proxies \<and>
    proxy_filterer self = Some filterer \<and> proxy_validator self = Some validator \<and>
    validator (filterer proxies protocols anonymities) limit = [] \<longrightarrow>
      fst (get self protocols anonymities limit t) = Inl NoProxiesFound) \<and>
   (fst (get_all_proxies_from_providers self t) = Inr proxies \<and>
    proxy_filterer self = Some filterer \<and> proxy_validator self = Some validator \<and>
    validator (filterer proxies protocols anonymities) 1 = [] \<longrightarrow>
      fst (get_one self protocols anonymities t) = Inl NoProxiesFound) \<and>
   fst (get self protocols anonymities limit t) \<noteq> Inr [] \<and>
   fst (get_one self protocols anonymities t) \<noteq> Inr []"
proof (intro conjI impI)
  assume a: "fst (get_all_proxies_from_providers self t) = Inr proxies \<and>
    proxy_filterer self = Some filterer \<and> proxy_validator self = Some validator \<and>
    validator (filterer proxies protocols anonymities) limit = []"
  then have "fst (fetcher_gather self protocols anonymities limit t) = Inl NoProxiesFound"
    using fetcher_gather_result [of self filterer validator protocols anonymities limit t] by simp
  then show "fst (get self protocols anonymities limit t) = Inl NoProxiesFound"
    by (simp add: get_def)
next
  assume a: "fst (get_all_proxies_from_providers self t) = Inr proxies \<and>
    proxy_filterer self = Some filterer \<and> proxy_validator self = Some validator \<and>
    validator (filterer proxies protocols anonymities) 1 = []"
  then have "fst (fetcher_gather self protocols anonymities 1 t) = Inl NoProxiesFound"
    using fetcher_gather_result [of self filterer validator protocols anonymities 1 t] by simp
  then show "fst (get_one self protocols anonymities t) = Inl NoProxiesFound"
    by (simp add: get_one_def)
next
  show "fst (get self protocols anonymities limit t) \<noteq> Inr []"
    using fetcher_gather_never_empty by (simp add: get_def)
next
  show "fst (get_one self protocols anonymities t) \<noteq> Inr []"
    using fetcher_gather_never_empty by (simp add: get_one_def)
qed

theorem empty_validation_witness:
  "fst (get_all_proxies_from_providers (fetcher_of providers_overlapping all_dead_validator) []) =
     Inr [proxy_a, proxy_b] \<and>
   proxy_filterer (fetcher_of providers_overlapping all_dead_validator) = Some pass_filterer \<and>
   proxy_validator (fetcher_of providers_overlapping all_dead_validator) = Some all_dead_validator \<and>
   all_dead_validator (pass_filterer [proxy_a, proxy_b] [] []) 0 = [] \<and>
   all_dead_validator (pass_filterer [proxy_a, proxy_b] [] []) 1 = [] \<and>
   fst (get (fetcher_of providers_overlapping all_dead_validator) [] [] 0 []) = Inl NoProxiesFound \<and>
   fst (get_one (fetcher_of providers_overlapping all_dead_validator) [] [] []) = Inl NoProxiesFound"
  using empty_validation_raises_NoProxiesFound
    [of "fetcher_of providers_overlapping all_dead_validator" "[]" "[proxy_a, proxy_b]"
        pass_filterer all_dead_validator "[]" "[]" 0]
    aggregate_example [of all_dead_validator "[]"]
  by (simp add: fetcher_of_def all_dead_validator_def)

text \<open>
  C3. \<^verbatim>\<open>get_one\<close> is documented and annotated to return one \<^verbatim>\<open>Proxy\<close>. On a fetcher whose
  providers and validator give proxies it returns what \<^verbatim>\<open>_gather\<close> returns, the list of the
  validator, here a list of one proxy and not that proxy.
\<close>

theorem get_one_returns_list:
  "fst (get_one (fetcher_of providers_overlapping all_alive_validator) [] [] []) = Inr [proxy_a] \<and>
   length [proxy_a] = 1"
  by (simp add: get_one_def fetcher_gather_def get_all_proxies_from_providers_def fetcher_of_def
      providers_overlapping_def proxy_eq_def proxy_a_def proxy_b_def proxy_a_elite_def
      pass_filterer_def all_alive_validator_def)

text \<open>
  C5. Without connectivity construction raises \<^verbatim>\<open>NoInternetConnection\<close>, and all it has done
  by then is to store the arguments, which initialises the logger, and to ask for
  connectivity: no provider, filterer or validator was called. Construction returns a
  fetcher only when the connectivity check passed.
\<close>

theorem construction_requires_connectivity:
  "(\<not> has_internet_connection e \<longrightarrow>
      ProxyFetcher_init e providers validator filterer loop0 debug0 t =
        (Inl NoInternetConnection, t @ [InitLogger debug0, HasInternetConnection])) \<and>
   (fst (ProxyFetcher_init e providers validator filterer loop0 debug0 t) = Inr self \<longrightarrow>
      has_internet_connection e)"
proof (intro conjI impI)
  assume "\<not> has_internet_connection e"
  then show "ProxyFetcher_init e providers validator filterer loop0 debug0 t =
        (Inl NoInternetConnection, t @ [InitLogger debug0, HasInternetConnection])"
    by (simp add: ProxyFetcher_init_def unset_def post_init_def)
next
  assume "fst (ProxyFetcher_init e providers validator filterer loop0 debug0 t) = Inr self"
  from init_constructed [OF this] show "has_internet_connection e" by simp
qed

theorem construction_witness:
  "\<not> has_internet_connection env_offline \<and>
   ProxyFetcher_init env_offline providers_overlapping None None None True [] =
     (Inl NoInternetConnection, [InitLogger True, HasInternetConnection]) \<and>
   fst (ProxyFetcher_init env_online providers_overlapping (Some all_alive_validator)
         (Some pass_filterer) (Some 0) False []) =
     Inr (fetcher_of providers_overlapping all_alive_validator) \<and>
   has_internet_connection env_online"
  using construction_requires_connectivity
      [of env_offline providers_overlapping None None None True "[]"]
    construction_requires_connectivity
      [of env_online providers_overlapping "Some all_alive_validator" "Some pass_filterer"
          "Some 0" False "[]" "fetcher_of providers_overlapping all_alive_validator"]
    init_example [of providers_overlapping all_alive_validator]
  by (simp add: env_offline_def env_online_def)

text \<open>
  C9, as the code has it. A write to a field stores the value and leaves the other fields as
  they are. A write to a field other than \<^verbatim>\<open>debug\<close> does nothing else; a write to \<^verbatim>\<open>debug\<close>
  calls \<^verbatim>\<open>init_logger\<close> with the value as well.
\<close>

theorem setattr_stores_and_debug_inits_logger:
  "setattr self (Set_debug b) t = (self\<lparr>debug := b\<rparr>, t @ [InitLogger b]) \<and>
   setattr self (Set_proxy_providers ps) t = (self\<lparr>proxy_providers := ps\<rparr>, t) \<and>
   setattr self (Set_proxy_validator v) t = (self\<lparr>proxy_validator := v\<rparr>, t) \<and>
   setattr self (Set_proxy_filterer f) t = (self\<lparr>proxy_filterer := f\<rparr>, t) \<and>
   setattr self (Set_loop l) t = (self\<lparr>loop := l\<rparr>, t)"
  by simp

text \<open>
  C9 as stated fails: the write \<^verbatim>\<open>debug = True\<close> initialises the logger.
\<close>

theorem setattr_debug_inits_logger:
  "snd (setattr (fetcher_of providers_overlapping all_alive_validator) (Set_debug True) []) =
     [InitLogger True] \<and>
   snd (setattr (fetcher_of providers_overlapping all_alive_validator) (Set_debug True) []) \<noteq> []"
  by simp

text \<open>
  C10. \<^verbatim>\<open>_get_raw_proxies\<close> is all or nothing over the protocols: when the request for one
  protocol raises or is answered with a status that is not ok, it raises
  \<^verbatim>\<open>ProxyGatherException\<close> and what the earlier protocols gave is lost; when every request
  succeeds it returns the lines of all answers, in the order of the protocols, each with its
  protocol in front; it returns a list only when every request succeeded.
\<close>

theorem get_raw_proxies_all_or_nothing:
  "((\<exists>p \<in> set protocols. session_get p = Raises \<or> (\<exists>body. session_get p = Response False body)) \<longrightarrow>
      get_raw_proxies session_get protocols = Inl ProxyGatherException) \<and>
   ((\<forall>p \<in> set protocols. session_get p = Response True (texts p)) \<longrightarrow>
      get_raw_proxies session_get protocols =
        Inr (concat (map (\<lambda>p. map (\<lambda>proxy. p @ '':'' @ proxy) (splitlines (texts p))) protocols))) \<and>
   (\<forall>xs. get_raw_proxies session_get protocols = Inr xs \<longrightarrow>
      (\<forall>p \<in> set protocols. \<exists>body. session_get p = Response True body))"
proof (intro conjI impI allI)
  assume "\<exists>p \<in> set protocols. session_get p = Raises \<or> (\<exists>body. session_get p = Response False body)"
  then obtain p where "p \<in> set protocols"
    "session_get p = Raises \<or> (\<exists>body. session_get p = Response False body)" by blast
  then show "get_raw_proxies session_get protocols = Inl ProxyGatherException"
    unfolding get_raw_proxies_def by (rule loop_one_failed)
next
  assume "\<forall>p \<in> set protocols. session_get p = Response True (texts p)"
  from loop_all_ok [OF this, of "[]"]
  show "get_raw_proxies session_get protocols =
        Inr (concat (map (\<lambda>p. map (\<lambda>proxy. p @ '':'' @ proxy) (splitlines (texts p))) protocols))"
    by (simp add: get_raw_proxies_def)
next
  fix xs
  assume "get_raw_proxies session_get protocols = Inr xs"
  then show "\<forall>p \<in> set protocols. \<exists>body. session_get p = Response True body"
    unfolding get_raw_proxies_def by (rule loop_returned_all_ok)
qed

theorem get_raw_proxies_witness:
  "session_socks4_refused ''socks4'' = Response False [] \<and>
   get_raw_proxies session_socks4_refused Protocols_values = Inl ProxyGatherException \<and>
   session_all_ok ''http'' = Response True ''1.1.1.1:80'' \<and>
   get_raw_proxies session_all_ok Protocols_values =
     Inr [''http:1.1.1.1:80'', ''https:1.1.1.1:80'', ''socks4:1.1.1.1:80'', ''socks5:1.1.1.1:80'']"
  using get_raw_proxies_all_or_nothing [of Protocols_values session_socks4_refused "\<lambda>p. []"]
    get_raw_proxies_all_or_nothing [of Protocols_values session_all_ok "\<lambda>p. ''1.1.1.1:80''"]
  by (simp add: Protocols_values_def session_socks4_refused_def session_all_ok_def
      splitlines_example)

text \<open>
  C7, as the code has it. \<^verbatim>\<open>raw_proxy_to_object\<close> raises \<^verbatim>\<open>ProxyParseException\<close> when the raw
  string does not have exactly two colons, that is, three fields. With three fields it
  gives what the constructor of \<^verbatim>\<open>Proxy\<close> gives for the address, the port and the protocol in
  lower case; it does not look at the port.
\<close>

theorem raw_proxy_to_object_raises_on_field_count:
  "(count_list raw_proxy CHR '':'' \<noteq> 2 \<longrightarrow>
      raw_proxy_to_object Proxy_new raw_proxy = Inl ProxyParseException) \<and>
   (count_list raw_proxy CHR '':'' = 2 \<longrightarrow>
      (\<exists>protocol0 ip0 port0.
         raw_proxy = protocol0 @ '':'' @ ip0 @ '':'' @ port0 \<and>
         CHR '':'' \<notin> set protocol0 \<and> CHR '':'' \<notin> set ip0 \<and> CHR '':'' \<notin> set port0 \<and>
         raw_proxy_to_object Proxy_new raw_proxy = Proxy_new ip0 port0 (lower protocol0)))"
proof (intro conjI impI)
  assume "count_list raw_proxy CHR '':'' \<noteq> 2"
  then have "length (str_split CHR '':'' raw_proxy) \<noteq> 3" by (simp add: length_str_split)
  then show "raw_proxy_to_object Proxy_new raw_proxy = Inl ProxyParseException"
    by (rule raw_proxy_to_object_wrong_count)
next
  assume "count_list raw_proxy CHR '':'' = 2"
  then have "length (str_split CHR '':'' raw_proxy) = 3" by (simp add: length_str_split)
  then obtain a b d where f: "str_split CHR '':'' raw_proxy = [a, b, d]"
    using length_three by blast
  from str_split_three [OF f] raw_proxy_to_object_fields [OF f, of Proxy_new]
  show "\<exists>protocol0 ip0 port0.
         raw_proxy = protocol0 @ '':'' @ ip0 @ '':'' @ port0 \<and>
         CHR '':'' \<notin> set protocol0 \<and> CHR '':'' \<notin> set ip0 \<and> CHR '':'' \<notin> set port0 \<and>
         raw_proxy_to_object Proxy_new raw_proxy = Proxy_new ip0 port0 (lower protocol0)"
    by auto
qed

theorem raw_proxy_to_object_witness:
  "count_list ''bad-string'' CHR '':'' \<noteq> 2 \<and>
   raw_proxy_to_object Proxy_init ''bad-string'' = Inl ProxyParseException \<and>
   count_list ''HTTP:1.2.3.4:8080'' CHR '':'' = 2 \<and>
   (\<exists>protocol0 ip0 port0.
      ''HTTP:1.2.3.4:8080'' = protocol0 @ '':'' @ ip0 @ '':'' @ port0 \<and>
      CHR '':'' \<notin> set protocol0 \<and> CHR '':'' \<notin> set ip0 \<and> CHR '':'' \<notin> set port0 \<and>
      raw_proxy_to_object Proxy_init ''HTTP:1.2.3.4:8080'' = Proxy_init ip0 port0 (lower protocol0))"
  using raw_proxy_to_object_raises_on_field_count [of "''bad-string''" Proxy_init]
    raw_proxy_to_object_raises_on_field_count [of "''HTTP:1.2.3.4:8080''" Proxy_init]
  by simp

text \<open>
  C7 as stated fails: a raw string with three fields and the port \<^verbatim>\<open>abc\<close> is malformed in
  the words of the specification, and no \<^verbatim>\<open>ProxyParseException\<close> is raised for it.
\<close>

theorem non_numeric_port_is_not_a_parse_error:
  "malformed ''http:1.2.3.4:abc'' \<and>
   raw_proxy_to_object Proxy_init ''http:1.2.3.4:abc'' =
     Inr \<lparr>protocol = ''http'', ip = ''1.2.3.4'', port = ''abc'', anonymity = None\<rparr> \<and>
   raw_proxy_to_object Proxy_init ''http:1.2.3.4:abc'' \<noteq> Inl ProxyParseException"
  by (simp add: malformed_def numeric_def raw_proxy_to_object_def Proxy_init_def lower_def
      lower_char_def)


end
